theory Spec2Isabelle
  imports
    Complex_Main
    "HOL-Library.Sublist"
    "HOL-Library.Char_ord"
    "HOL-Library.List_Lexorder"
begin

section \<open>Data model\<close>

text \<open>
  One trade transaction, with the columns that \<^verbatim>\<open>Dashboard.py\<close> reads. Text columns are
  Python strings: \<^typ>\<open>string\<close> with the lexicographic order of lists over the order of
  the character codes, which is how Python compares \<^verbatim>\<open>str\<close> values. The
  three numeric columns are modelled as real numbers: rounding of the 64-bit floats is
  not part of the model, and neither are missing cells (NaN in a loaded column).
\<close>

record row =
  Country :: string
  Product :: string
  Import_Export :: string
  Category :: string
  Port :: string
  Shipping_Method :: string
  Supplier :: string
  Customer :: string
  Payment_Terms :: string
  Quantity :: real
  Value :: real
  Weight :: real

text \<open>
  A DataFrame is the list of its rows in positional order. The index labels that pandas
  carries along are not modelled: the script never reads them, and the export is
  written with \<^verbatim>\<open>index=False\<close>.
\<close>

type_synonym dataframe = "row list"

datatype error =
    FileNotFoundError | ValueError | IndexError | KeyError | OSError
  | EmptyDataError | ParserError

text \<open>
  The part of the outside world the script touches: the files on disk (a CSV file is
  represented by the table it holds), the paths whose write fails, the log of every
  write that was attempted, and the state of numpy's global random generator. For a
  path whose write fails, \<open>partial_write\<close> tells how far the write got: \<open>None\<close> when the
  file could not even be opened and is untouched, \<open>Some k\<close> when it was opened for
  writing, which empties it, and the failure came after \<open>k\<close> rows had reached it.
\<close>

record world =
  files :: "string \<rightharpoonup> dataframe"
  unwritable :: "string set"
  partial_write :: "string \<rightharpoonup> nat"
  write_log :: "(string \<times> dataframe) list"
  global_rng :: nat

section \<open>Dataset loader (lines 7-8)\<close>

definition file_path :: string where
  "file_path = ''Imports_Exports_Dataset.csv''"

definition read_csv :: "world \<Rightarrow> string \<Rightarrow> error + dataframe" where
  "read_csv w path = (case files w path of None \<Rightarrow> Inl FileNotFoundError | Some df \<Rightarrow> Inr df)"

text \<open>
  \<^verbatim>\<open>DataFrame.take\<close>: the rows at the given positions, in the order given; a position
  outside the frame raises.
\<close>

definition take_rows :: "dataframe \<Rightarrow> nat list \<Rightarrow> error + dataframe" where
  "take_rows df idx =
     (if list_all (\<lambda>i. i < length df) idx then Inr (map (\<lambda>i. df ! i) idx) else Inl IndexError)"

text \<open>
  \<^verbatim>\<open>DataFrame.sample(n, random_state)\<close> without replacement and without weights. The
  generator is numpy's and is taken as the parameter \<open>permutation\<close>: \<open>permutation s N\<close> is
  the permutation of \<open>range(N)\<close> that a generator in state \<open>s\<close> draws. With
  \<^verbatim>\<open>random_state=seed\<close> a fresh generator seeded with \<open>seed\<close> is used; without it, the
  global generator. A sample larger than the population raises \<^verbatim>\<open>ValueError\<close>
  ("Cannot take a larger sample than population when 'replace=False'").
\<close>

definition sample :: "(nat \<Rightarrow> nat \<Rightarrow> nat list) \<Rightarrow> world \<Rightarrow> dataframe \<Rightarrow> nat \<Rightarrow> nat option
    \<Rightarrow> error + dataframe" where
  "sample permutation w df n random_state =
     (let rs = (case random_state of Some seed \<Rightarrow> seed | None \<Rightarrow> global_rng w)
      in if length df < n then Inl ValueError
         else take_rows df (take n (permutation rs (length df))))"

definition load_sample_df :: "(nat \<Rightarrow> nat \<Rightarrow> nat list) \<Rightarrow> world \<Rightarrow> error + dataframe" where
  "load_sample_df permutation w =
     (case read_csv w file_path of
        Inl e \<Rightarrow> Inl e
      | Inr df \<Rightarrow> sample permutation w df 3001 (Some 55054))"

section \<open>Filter engine\<close>

text \<open>Data Preview page, lines 38-46.\<close>

definition filtered_df :: "dataframe \<Rightarrow> string list \<Rightarrow> string \<Rightarrow> dataframe" where
  "filtered_df sample_df selected_countries selected_product =
     (if selected_countries \<noteq> [] \<or> selected_product \<noteq> ''All'' then
        filter (\<lambda>r.
            (if selected_countries \<noteq> [] then Country r \<in> set selected_countries else True) \<and>
            (if selected_product \<noteq> ''All'' then Product r = selected_product else True))
          sample_df
      else take 10 sample_df)"

text \<open>Analysis page, lines 77-81.\<close>

definition filtered_data :: "dataframe \<Rightarrow> string \<Rightarrow> string \<Rightarrow> dataframe" where
  "filtered_data sample_df selected_country import_export_choice =
     (let fd0 = sample_df;
          fd1 = (if selected_country \<noteq> ''All''
                 then filter (\<lambda>r. Country r = selected_country) fd0 else fd0);
          fd2 = (if import_export_choice \<noteq> ''All''
                 then filter (\<lambda>r. Import_Export r = import_export_choice) fd1 else fd1)
      in fd2)"

text \<open>
  The predicate of the specification, in its words: a country set (empty: no
  constraint), a product or "All", an import/export choice or "All"; a row satisfies it
  when it satisfies every active constraint.
\<close>

definition satisfies :: "string set \<Rightarrow> string \<Rightarrow> string \<Rightarrow> row \<Rightarrow> bool" where
  "satisfies country_set product import_export r \<longleftrightarrow>
     (country_set = {} \<or> Country r \<in> country_set) \<and>
     (product = ''All'' \<or> Product r = product) \<and>
     (import_export = ''All'' \<or> Import_Export r = import_export)"

text \<open>The single country of the analysis page as a country set.\<close>

definition country_choice :: "string \<Rightarrow> string set" where
  "country_choice selected_country = (if selected_country = ''All'' then {} else {selected_country})"

text \<open>A sample row for the concrete instances below.\<close>

definition example_row :: row where
  "example_row = \<lparr>Country = ''India'', Product = ''laptop'', Import_Export = ''Export'',
     Category = ''Electronics'', Port = ''Mumbai'', Shipping_Method = ''Sea'',
     Supplier = ''Acme'', Customer = ''Bolt'', Payment_Terms = ''Prepaid'',
     Quantity = 5, Value = 100, Weight = 20\<rparr>"

section \<open>Aggregation module\<close>

text \<open>
  \<^verbatim>\<open>Series.unique()\<close>: the distinct values in order of first appearance (pandas walks the
  column once and keeps a hash table of the values seen). \<^verbatim>\<open>nunique()\<close> is their number.
\<close>

fun unique_from :: "'a list \<Rightarrow> 'a list \<Rightarrow> 'a list" where
  "unique_from seen [] = []"
| "unique_from seen (x # xs) =
     (if x \<in> set seen then unique_from seen xs else x # unique_from (x # seen) xs)"

definition unique :: "'a list \<Rightarrow> 'a list" where
  "unique col = unique_from [] col"

definition nunique :: "'a list \<Rightarrow> nat" where
  "nunique col = length (unique col)"

definition value_count :: "'a list \<Rightarrow> 'a \<Rightarrow> nat" where
  "value_count col v = length (filter (\<lambda>x. x = v) col)"

text \<open>
  \<^verbatim>\<open>Series.mode()\<close>: pandas counts every distinct value, keeps those whose count is the
  largest, and returns them sorted in ascending order (its \<^verbatim>\<open>algorithms.mode\<close> sorts the
  values that the hash table reports). On an empty column the result is empty.
\<close>

definition mode :: "'a::linorder list \<Rightarrow> 'a list" where
  "mode col =
     (let keys = unique col;
          max_count = fold max (map (value_count col) keys) 0
      in sort (filter (\<lambda>k. value_count col k = max_count) keys))"

text \<open>\<^verbatim>\<open>s[0]\<close> on the result: the first entry; on an empty result the label 0 is missing.\<close>

definition item0 :: "'a list \<Rightarrow> error + 'a" where
  "item0 s = (case s of [] \<Rightarrow> Inl KeyError | x # _ \<Rightarrow> Inr x)"

text \<open>
  The tie-break of the specification, in its words: among the values of maximum
  frequency, the first one encountered in original row order.
\<close>

definition row_order_first_mode :: "'a list \<Rightarrow> error + 'a" where
  "row_order_first_mode col =
     item0 (filter (\<lambda>x. list_all (\<lambda>y. value_count col y \<le> value_count col x) col) col)"

text \<open>
  \<^verbatim>\<open>Series.min()\<close> and \<^verbatim>\<open>Series.max()\<close> in the column's order; \<open>None\<close> is the NaN that
  pandas returns on an empty column.
\<close>

definition series_min :: "'a::linorder list \<Rightarrow> 'a option" where
  "series_min col = (case col of [] \<Rightarrow> None | x # xs \<Rightarrow> Some (fold min xs x))"

definition series_max :: "'a::linorder list \<Rightarrow> 'a option" where
  "series_max col = (case col of [] \<Rightarrow> None | x # xs \<Rightarrow> Some (fold max xs x))"

text \<open>
  \<^verbatim>\<open>describe()\<close> of one numeric column: count, mean, sample standard deviation (N-1
  denominator), minimum, the quartiles by linear interpolation between order statistics,
  maximum. \<open>None\<close> is NaN: the mean, the extremes and the quartiles of no value at all, and
  the standard deviation of fewer than two values.
\<close>

record stats =
  count :: nat
  mean :: "real option"
  std :: "real option"
  minimum :: "real option"
  pct25 :: "real option"
  pct50 :: "real option"
  pct75 :: "real option"
  maximum :: "real option"

definition series_mean :: "real list \<Rightarrow> real option" where
  "series_mean col = (if col = [] then None else Some (sum_list col / real (length col)))"

definition series_std :: "real list \<Rightarrow> real option" where
  "series_std col =
     (if length col < 2 then None
      else let m = sum_list col / real (length col)
           in Some (sqrt (sum_list (map (\<lambda>x. (x - m)\<^sup>2) col) / real (length col - 1))))"

definition quantile :: "real list \<Rightarrow> real \<Rightarrow> real option" where
  "quantile col q =
     (if col = [] then None
      else let s = sort col;
               h = real (length col - 1) * q;
               lo = nat \<lfloor>h\<rfloor>;
               hi = min (lo + 1) (length col - 1)
           in Some (s ! lo + (h - real lo) * (s ! hi - s ! lo)))"

definition describe_1d :: "real list \<Rightarrow> stats" where
  "describe_1d col =
     \<lparr>count = length col, mean = series_mean col, std = series_std col,
      minimum = series_min col, pct25 = quantile col (1/4), pct50 = quantile col (1/2),
      pct75 = quantile col (3/4), maximum = series_max col\<rparr>"

text \<open>Line 53: \<^verbatim>\<open>filtered_df[['Quantity', 'Value', 'Weight']].describe().T\<close>, one line per column.\<close>

definition summary_df :: "dataframe \<Rightarrow> (string \<times> stats) list" where
  "summary_df df =
     [(''Quantity'', describe_1d (map Quantity df)),
      (''Value'', describe_1d (map Value df)),
      (''Weight'', describe_1d (map Weight df))]"

section \<open>Export sink (line 58)\<close>

text \<open>
  \<^verbatim>\<open>df.to_csv(path, index=False)\<close>: one write is attempted. pandas opens the path in mode
  \<^verbatim>\<open>'w'\<close>, which empties an existing file, and then writes the rows. The call either
  replaces the file or raises \<^verbatim>\<open>OSError\<close>; a failure of the open leaves the file as it
  was, a failure after the open leaves the rows that had reached it, none at all if it
  came at once. A partial file is cut to whole rows here.
\<close>

definition to_csv :: "world \<Rightarrow> dataframe \<Rightarrow> string \<Rightarrow> (error + unit) \<times> world" where
  "to_csv w df path =
     (let w' = w\<lparr>write_log := write_log w @ [(path, df)]\<rparr>
      in if path \<in> unwritable w then
           (Inl OSError,
            case partial_write w path of
              None \<Rightarrow> w'
            | Some k \<Rightarrow> w'\<lparr>files := (files w)(path \<mapsto> take k df)\<rparr>)
         else (Inr (), w'\<lparr>files := (files w)(path \<mapsto> df)\<rparr>))"

section \<open>CSV text (lines 8 and 58)\<close>

















section \<open>View renderer\<close>

datatype metric_value = IntValue nat | StrValue string

text \<open>
  What a run puts on the page, in the order of the calls. The charts are kept as the
  data they are drawn from; the static demonstration charts carry their titles only,
  and the long static texts are cut to their first words. The pictograph in front of
  three page titles is left out. The input widgets are not elements: their values are
  the arguments of the pages.
\<close>

datatype element =
    SidebarTitle string
  | SidebarInfo string
  | Title string
  | Markdown string
  | Subheader string
  | DataFrameView dataframe
  | SummaryTable "(string \<times> stats) list"
  | Success string
  | Metric string metric_value
  | TopCountriesChart dataframe
  | StaticChart string
  | MinMaxTable string "(string \<times> string option) list"

text \<open>
  The result of one run of the script: the elements shown, the exception that ended
  the run (if any), and the world afterwards.
\<close>

record run =
  shown :: "element list"
  raised :: "error option"
  final :: world

definition welcome_page :: "world \<Rightarrow> run" where
  "welcome_page w =
     \<lparr>shown = [Title ''Welcome to the Imports/Exports Dashboard'', Markdown ''#### Purpose:''],
      raised = None, final = w\<rparr>"

text \<open>Lines 30-59.\<close>

definition data_preview :: "world \<Rightarrow> dataframe \<Rightarrow> string list \<Rightarrow> string \<Rightarrow> bool \<Rightarrow> run" where
  "data_preview w sample_df selected_countries selected_product save_clicked =
     (let fdf = filtered_df sample_df selected_countries selected_product;
          page =
            [Title ''Data Preview Dashboard'',
             Subheader (if selected_countries \<noteq> [] \<or> selected_product \<noteq> ''All''
                        then ''Filtered Data'' else ''First 10 Rows of Data''),
             DataFrameView fdf,
             Subheader ''Summary Statistics'',
             SummaryTable (summary_df fdf)]
      in if save_clicked then
           (case to_csv w fdf ''Filtered_Data.csv'' of
              (Inl e, w') \<Rightarrow> \<lparr>shown = page, raised = Some e, final = w'\<rparr>
            | (Inr _, w') \<Rightarrow>
                \<lparr>shown = page @ [Success (''Filtered data saved as 'Filtered_Data.csv'' @ [CHR 0x27])],
                 raised = None, final = w'\<rparr>)
         else \<lparr>shown = page, raised = None, final = w\<rparr>)"

text \<open>Lines 143-179: the smallest and the largest value of nine text columns.\<close>

definition min_max_columns :: "dataframe \<Rightarrow> (string \<times> string list) list" where
  "min_max_columns sample_df =
     [(''Country'', map Country sample_df),
      (''Product'', map Product sample_df),
      (''Import_Export'', map Import_Export sample_df),
      (''Category'', map Category sample_df),
      (''Port'', map Port sample_df),
      (''Shipping Method'', map Shipping_Method sample_df),
      (''Supplier'', map Supplier sample_df),
      (''Customer'', map Customer sample_df),
      (''Payment Terms'', map Payment_Terms sample_df)]"

text \<open>Lines 61-179.\<close>

definition analysis_dashboard :: "world \<Rightarrow> dataframe \<Rightarrow> string \<Rightarrow> string \<Rightarrow> run" where
  "analysis_dashboard w sample_df selected_country import_export_choice =
     (let cards3 =
            [Title ''Comprehensive Analysis Dashboard'',
             Metric ''Total Records'' (IntValue (length sample_df)),
             Metric ''Unique Products'' (IntValue (nunique (map Product sample_df))),
             Metric ''Unique Countries'' (IntValue (nunique (map Country sample_df)))]
      in case item0 (mode (map Shipping_Method sample_df)) of
           Inl e \<Rightarrow> \<lparr>shown = cards3, raised = Some e, final = w\<rparr>
         | Inr shipping \<Rightarrow>
        (let cards4 = cards3 @ [Metric ''Most Used Shipping Method'' (StrValue shipping)]
         in case item0 (mode (map Product sample_df)) of
              Inl e \<Rightarrow> \<lparr>shown = cards4, raised = Some e, final = w\<rparr>
            | Inr top_product \<Rightarrow>
           (let cards5 = cards4 @ [Metric ''Top Product'' (StrValue top_product)];
                fd = filtered_data sample_df selected_country import_export_choice
            in \<lparr>shown = cards5 @
                   [SidebarTitle ''Filters'',
                    Subheader ''Data Visualizations'',
                    Subheader (''Top 5 Countries by '' @
                      (if import_export_choice \<noteq> ''All'' then import_export_choice else ''Total'')
                      @ '' Volume''),
                    TopCountriesChart fd,
                    Subheader ''Maximum Weight in KGs per Shipping Method and Category'',
                    StaticChart ''Weight Distribution by Shipping Method and Category'',
                    Subheader ''Count of Products by Payment Terms per Category'',
                    StaticChart ''Stacked Bar Chart of Payment Terms by Category'',
                    Subheader ''Category Ranking by Total Economic Impact'',
                    StaticChart ''Economic Impact Distribution by Category'',
                    Subheader ''Minimum and Maximum Values'',
                    Markdown ''Minimum Values'',
                    MinMaxTable ''Minimum Value''
                      (map (\<lambda>(f, col). (f, series_min col)) (min_max_columns sample_df)),
                    Markdown ''Maximum Values'',
                    MinMaxTable ''Maximum Value''
                      (map (\<lambda>(f, col). (f, series_max col)) (min_max_columns sample_df))],
                raised = None, final = w\<rparr>)))"

definition key_observations :: "world \<Rightarrow> run" where
  "key_observations w =
     \<lparr>shown = [Title ''Key Observations and Insights'',
               Markdown ''## Summary of Key Findings'', Markdown ''- **Top Countries**'',
               Markdown ''## Managerial Insights'', Markdown ''- **Strategic Partnerships**'',
               Markdown ''## Recommendations'', Markdown ''- **Enhance Shipping Capabilities**'',
               Markdown ''### Conclusion'', Markdown ''This analysis highlights''],
      raised = None, final = w\<rparr>"

section \<open>The script\<close>

text \<open>The value of the page selector (line 15) and of the other widgets of one run.\<close>

datatype page = Welcome_Page | Data_Preview | Analysis_Dashboard | Key_Observations_and_Insights

record inputs =
  ui_page :: page
  ui_countries :: "string list"
  ui_product :: string
  ui_save :: bool
  ui_country :: string
  ui_import_export :: string

text \<open>
  One run of \<^verbatim>\<open>Dashboard.py\<close>. Nothing in the script catches an exception: the first one
  raised ends the run, and what was shown before it stays shown.
\<close>

definition Dashboard :: "(nat \<Rightarrow> nat \<Rightarrow> nat list) \<Rightarrow> inputs \<Rightarrow> world \<Rightarrow> run" where
  "Dashboard permutation ui w =
     (case load_sample_df permutation w of
        Inl e \<Rightarrow> \<lparr>shown = [], raised = Some e, final = w\<rparr>
      | Inr sample_df \<Rightarrow>
          (let r = (case ui_page ui of
                      Welcome_Page \<Rightarrow> welcome_page w
                    | Data_Preview \<Rightarrow>
                        data_preview w sample_df (ui_countries ui) (ui_product ui) (ui_save ui)
                    | Analysis_Dashboard \<Rightarrow>
                        analysis_dashboard w sample_df (ui_country ui) (ui_import_export ui)
                    | Key_Observations_and_Insights \<Rightarrow> key_observations w)
           in case raised r of
                Some e \<Rightarrow> r\<lparr>shown := SidebarTitle ''Navigation'' # shown r\<rparr>
              | None \<Rightarrow>
                  r\<lparr>shown := SidebarTitle ''Navigation'' # shown r
                       @ [SidebarInfo ''Developed by [Amitanshu Tiwari- 055054]'']\<rparr>))"

text \<open>The metric cards among the elements of a page.\<close>

fun metric_cards :: "element list \<Rightarrow> (string \<times> metric_value) list" where
  "metric_cards [] = []"
| "metric_cards (Metric l v # es) = (l, v) # metric_cards es"
| "metric_cards (_ # es) = metric_cards es"

text \<open>The metric cards of the Analysis page as a function of the sample alone.\<close>

definition whole_dataset_cards :: "dataframe \<Rightarrow> (string \<times> metric_value) list" where
  "whole_dataset_cards sample_df =
     [(''Total Records'', IntValue (length sample_df)),
      (''Unique Products'', IntValue (nunique (map Product sample_df))),
      (''Unique Countries'', IntValue (nunique (map Country sample_df)))] @
     (case item0 (mode (map Shipping_Method sample_df)) of
        Inl e \<Rightarrow> []
      | Inr shipping \<Rightarrow>
          (''Most Used Shipping Method'', StrValue shipping) #
          (case item0 (mode (map Product sample_df)) of
             Inl e \<Rightarrow> []
           | Inr top_product \<Rightarrow> [(''Top Product'', StrValue top_product)]))"

section \<open>Concrete instances\<close>

text \<open>
  A generator that draws the identity permutation, a source file of 3001 rows, and the
  same world with the export path write-protected.
\<close>

definition identity_permutation :: "nat \<Rightarrow> nat \<Rightarrow> nat list" where
  "identity_permutation s N = [0..<N]"

definition example_world :: world where
  "example_world =
     \<lparr>files = [file_path \<mapsto> replicate 3001 example_row], unwritable = {},
      partial_write = Map.empty,
      write_log = [], global_rng = 0\<rparr>"

definition read_only_world :: world where
  "read_only_world = example_world\<lparr>unwritable := {''Filtered_Data.csv''}\<rparr>"

text \<open>The widgets of a run on the Data Preview page with no filter and the save button pressed.\<close>

definition example_inputs :: inputs where
  "example_inputs = \<lparr>ui_page = Data_Preview, ui_countries = [], ui_product = ''All'',
     ui_save = True, ui_country = ''All'', ui_import_export = ''All''\<rparr>"

text \<open>A two-row dataset whose shipping methods tie.\<close>

definition two_rows :: dataframe where
  "two_rows = [example_row, example_row\<lparr>Country := ''USA'', Shipping_Method := ''Air''\<rparr>]"













text \<open>The statistics of a column without values: count zero, NaN elsewhere.\<close>

definition no_data :: stats where
  "no_data = \<lparr>count = 0, mean = None, std = None, minimum = None, pct25 = None,
     pct50 = None, pct75 = None, maximum = None\<rparr>"

section \<open>Filter engine: results\<close>

lemma filtered_df_active:
  "selected_countries \<noteq> [] \<or> selected_product \<noteq> ''All'' \<Longrightarrow>
   filtered_df df selected_countries selected_product
     = filter (satisfies (set selected_countries) selected_product ''All'') df"
  unfolding filtered_df_def satisfies_def
  by (auto intro!: filter_cong)

lemma filtered_data_eq:
  "filtered_data df c ie = filter (satisfies (country_choice c) ''All'' ie) df"
  unfolding filtered_data_def satisfies_def country_choice_def Let_def
  by (auto intro!: filter_cong)

section \<open>Aggregation module: results\<close>

lemma set_unique_from: "set (unique_from seen xs) = set xs - set seen"
  by (induction xs arbitrary: seen) auto

lemma distinct_unique_from: "distinct (unique_from seen xs)"
  by (induction xs arbitrary: seen) (auto simp: set_unique_from)

lemma set_unique: "set (unique col) = set col"
  by (simp add: unique_def set_unique_from)

lemma nunique_card: "nunique col = card (set col)"
  using distinct_card[OF distinct_unique_from, of "[]" col]
  by (simp add: nunique_def unique_def set_unique_from)

lemma fold_max_nat: "ns \<noteq> [] \<Longrightarrow> fold max ns (0::nat) = Max (set ns)"
proof (cases ns)
  case Nil
  assume "ns \<noteq> []"
  with Nil show ?thesis by simp
next
  case (Cons n ms)
  have "fold max ns 0 = fold max ms n" using Cons by simp
  also have "\<dots> = Max (set (n # ms))" by (rule Max.set_eq_fold[symmetric])
  finally show ?thesis using Cons by simp
qed

lemma value_count_pos: "v \<in> set col \<Longrightarrow> 0 < value_count col v"
  unfolding value_count_def by (induction col) auto

lemma value_count_zero: "v \<notin> set col \<Longrightarrow> value_count col v = 0"
  unfolding value_count_def by (induction col) auto

lemma mode_nonempty:
  assumes "col \<noteq> []"
  defines "mx \<equiv> fold max (map (value_count col) (unique col)) 0"
  shows "mx \<in> value_count col ` set col" and "\<forall>v \<in> set col. value_count col v \<le> mx"
proof -
  have ne: "map (value_count col) (unique col) \<noteq> []"
    using assms(1) set_unique[of col] by (cases "unique col") auto
  have mx: "mx = Max (value_count col ` set col)"
    unfolding mx_def fold_max_nat[OF ne] by (simp add: set_unique)
  have fin: "finite (value_count col ` set col)" by simp
  have nonempty: "value_count col ` set col \<noteq> {}" using assms(1) by simp
  show "mx \<in> value_count col ` set col"
    unfolding mx using Max_in[OF fin nonempty] .
  show "\<forall>v \<in> set col. value_count col v \<le> mx"
    unfolding mx using Max_ge[OF fin] by blast
qed

lemma set_mode:
  "set (mode col) = {k \<in> set col. value_count col k = fold max (map (value_count col) (unique col)) 0}"
  by (auto simp: mode_def Let_def set_unique)

lemma sorted_mode: "sorted (mode col)"
  by (simp add: mode_def Let_def)

lemma item0_mode:
  assumes "col \<noteq> []"
  shows "\<exists>m. item0 (mode col) = Inr m \<and> m \<in> set col \<and>
           (\<forall>v. value_count col v \<le> value_count col m) \<and>
           (\<forall>v. value_count col v = value_count col m \<longrightarrow> m \<le> v)"
proof -
  define mx where "mx = fold max (map (value_count col) (unique col)) 0"
  from mode_nonempty[OF assms] obtain k where k: "k \<in> set col" "value_count col k = mx"
    and ub: "\<forall>v \<in> set col. value_count col v \<le> mx"
    unfolding mx_def by auto
  have "k \<in> set (mode col)" using k by (simp add: set_mode mx_def)
  then obtain m ms where mm: "mode col = m # ms" by (cases "mode col") auto
  have m_in: "m \<in> set (mode col)" using mm by simp
  then have m_col: "m \<in> set col" and m_mx: "value_count col m = mx"
    by (simp_all add: set_mode mx_def)
  have least: "\<forall>v \<in> set (mode col). m \<le> v"
    using sorted_mode[of col] unfolding mm by auto
  have c1: "\<forall>v. value_count col v \<le> value_count col m"
  proof
    fix v show "value_count col v \<le> value_count col m"
    proof (cases "v \<in> set col")
      case True then show ?thesis using ub m_mx by simp
    next
      case False then show ?thesis by (simp add: value_count_zero)
    qed
  qed
  have c2: "\<forall>v. value_count col v = value_count col m \<longrightarrow> m \<le> v"
  proof (intro allI impI)
    fix v assume eq: "value_count col v = value_count col m"
    have "v \<in> set col"
    proof (rule ccontr)
      assume "v \<notin> set col"
      then have "value_count col v = 0" by (rule value_count_zero)
      moreover have "0 < value_count col m" using m_col by (rule value_count_pos)
      ultimately show False using eq by simp
    qed
    then have "v \<in> set (mode col)" using eq m_mx by (simp add: set_mode mx_def)
    then show "m \<le> v" using least by blast
  qed
  show ?thesis
    using mm m_col c1 c2 by (simp add: item0_def)
qed

section \<open>Dataset loader: results\<close>

lemma take_rows_identity:
  "n \<le> length df \<Longrightarrow> take_rows df (take n [0..<length df]) = Inr (take n df)"
proof -
  assume le: "n \<le> length df"
  have idx: "take n [0..<length df] = [0..<n]" using le by (simp add: take_upt)
  have "map (\<lambda>i. df ! i) [0..<n] = map (\<lambda>i. df ! i) (take n [0..<length df])"
    by (simp only: idx)
  also have "\<dots> = take n (map (\<lambda>i. df ! i) [0..<length df])" by (simp only: take_map)
  also have "\<dots> = take n df" by (simp only: map_nth)
  finally have m: "map (\<lambda>i. df ! i) [0..<n] = take n df" .
  have "list_all (\<lambda>i. i < length df) [0..<n]" using le by (simp add: list_all_iff)
  then show ?thesis unfolding take_rows_def idx using m by simp
qed

lemma load_identity:
  assumes "files w file_path = Some df" and "3001 \<le> length df"
  shows "load_sample_df identity_permutation w = Inr (take 3001 df)"
proof -
  have ge: "\<not> length df < 3001" using assms(2) by simp
  have "sample identity_permutation w df 3001 (Some 55054)
          = take_rows df (take 3001 [0..<length df])"
    unfolding sample_def identity_permutation_def Let_def using ge
    by (simp only: if_False)
  also have "\<dots> = Inr (take 3001 df)" by (rule take_rows_identity[OF assms(2)])
  finally show ?thesis
    unfolding load_sample_df_def read_csv_def assms(1) by (simp only: option.case sum.case)
qed

lemma files_example_world: "files example_world file_path = Some (replicate 3001 example_row)"
  by (simp add: example_world_def)

lemma files_read_only_world: "files read_only_world file_path = Some (replicate 3001 example_row)"
  by (simp add: example_world_def read_only_world_def)

lemma load_example_world:
  "load_sample_df identity_permutation example_world = Inr (replicate 3001 example_row)"
  using load_identity[OF files_example_world] by simp

lemma load_read_only_world:
  "load_sample_df identity_permutation read_only_world = Inr (replicate 3001 example_row)"
  using load_identity[OF files_read_only_world] by simp

section \<open>Pages and script: results\<close>

lemma describe_1d_Nil: "describe_1d [] = no_data"
  by (simp add: describe_1d_def no_data_def series_mean_def series_std_def series_min_def
      series_max_def quantile_def)

lemma summary_df_Nil:
  "summary_df [] = [(''Quantity'', no_data), (''Value'', no_data), (''Weight'', no_data)]"
  unfolding summary_df_def by (simp only: list.map describe_1d_Nil)

lemma to_csv_cases:
  "to_csv w df path =
     (if path \<in> unwritable w
      then (Inl OSError,
            (case partial_write w path of
               None \<Rightarrow> w
             | Some k \<Rightarrow> w\<lparr>files := (files w)(path \<mapsto> take k df)\<rparr>)
            \<lparr>write_log := write_log w @ [(path, df)]\<rparr>)
      else (Inr (), w\<lparr>write_log := write_log w @ [(path, df)], files := (files w)(path \<mapsto> df)\<rparr>))"
  by (simp add: to_csv_def Let_def split: option.splits)

lemma shown_data_preview:
  "shown (data_preview w sample_df selected_countries selected_product save_clicked) =
     [Title ''Data Preview Dashboard'',
      Subheader (if selected_countries \<noteq> [] \<or> selected_product \<noteq> ''All''
                 then ''Filtered Data'' else ''First 10 Rows of Data''),
      DataFrameView (filtered_df sample_df selected_countries selected_product),
      Subheader ''Summary Statistics'',
      SummaryTable (summary_df (filtered_df sample_df selected_countries selected_product))]
     @ (if save_clicked \<and> ''Filtered_Data.csv'' \<notin> unwritable w
        then [Success (''Filtered data saved as 'Filtered_Data.csv'' @ [CHR 0x27])] else [])"
  unfolding data_preview_def Let_def to_csv_cases
  by (simp only: run.simps prod.case sum.case if_distrib[of shown] split: if_splits) simp


lemma raised_data_preview:
  "raised (data_preview w sample_df selected_countries selected_product save_clicked) =
     (if save_clicked \<and> ''Filtered_Data.csv'' \<in> unwritable w then Some OSError else None)"
  unfolding data_preview_def Let_def to_csv_cases
  by (simp only: run.simps prod.case sum.case if_distrib[of raised] split: if_splits) simp

lemma final_data_preview:
  "final (data_preview w sample_df selected_countries selected_product save_clicked) =
     (if save_clicked
      then snd (to_csv w (filtered_df sample_df selected_countries selected_product)
                  ''Filtered_Data.csv'')
      else w)"
  unfolding data_preview_def Let_def to_csv_cases
  by (simp only: run.simps prod.case sum.case if_distrib[of final] split: if_splits) simp

lemma Dashboard_loaded:
  assumes "load_sample_df permutation w = Inr sample_df"
  shows "Dashboard permutation ui w =
     (let r = (case ui_page ui of
                 Welcome_Page \<Rightarrow> welcome_page w
               | Data_Preview \<Rightarrow>
                   data_preview w sample_df (ui_countries ui) (ui_product ui) (ui_save ui)
               | Analysis_Dashboard \<Rightarrow>
                   analysis_dashboard w sample_df (ui_country ui) (ui_import_export ui)
               | Key_Observations_and_Insights \<Rightarrow> key_observations w)
      in case raised r of
           Some e \<Rightarrow> r\<lparr>shown := SidebarTitle ''Navigation'' # shown r\<rparr>
         | None \<Rightarrow>
             r\<lparr>shown := SidebarTitle ''Navigation'' # shown r
                  @ [SidebarInfo ''Developed by [Amitanshu Tiwari- 055054]'']\<rparr>)"
  unfolding Dashboard_def assms by (simp only: sum.case)

lemma final_Dashboard_preview:
  assumes "load_sample_df permutation w = Inr sample_df" and "ui_page ui = Data_Preview"
  shows "final (Dashboard permutation ui w)
           = final (data_preview w sample_df (ui_countries ui) (ui_product ui) (ui_save ui))"
  unfolding Dashboard_loaded[OF assms(1)] assms(2) Let_def
  by (simp only: page.case split: option.splits) simp

lemma raised_Dashboard_preview:
  assumes "load_sample_df permutation w = Inr sample_df" and "ui_page ui = Data_Preview"
  shows "raised (Dashboard permutation ui w)
           = raised (data_preview w sample_df (ui_countries ui) (ui_product ui) (ui_save ui))"
  unfolding Dashboard_loaded[OF assms(1)] assms(2) Let_def
  by (simp only: page.case split: option.splits) simp

lemma shown_Dashboard_preview:
  assumes "load_sample_df permutation w = Inr sample_df" and "ui_page ui = Data_Preview"
  shows "shown (Dashboard permutation ui w)
           = SidebarTitle ''Navigation''
             # shown (data_preview w sample_df (ui_countries ui) (ui_product ui) (ui_save ui))
             @ (if raised (data_preview w sample_df (ui_countries ui) (ui_product ui) (ui_save ui)) = None
                then [SidebarInfo ''Developed by [Amitanshu Tiwari- 055054]''] else [])"
  unfolding Dashboard_loaded[OF assms(1)] assms(2) Let_def
  by (simp only: page.case split: option.splits) simp

lemma write_log_to_csv:
  "write_log (snd (to_csv w df path)) = write_log w @ [(path, df)]"
  by (simp add: to_csv_cases)

lemma files_to_csv_failed:
  "path \<in> unwritable w \<Longrightarrow>
   files (snd (to_csv w df path)) =
     (case partial_write w path of
        None \<Rightarrow> files w
      | Some k \<Rightarrow> (files w)(path \<mapsto> take k df))"
  by (simp add: to_csv_cases split: option.splits)

lemma files_to_csv:
  "path \<notin> unwritable w \<Longrightarrow> files (snd (to_csv w df path)) = (files w)(path \<mapsto> df)"
  by (simp add: to_csv_cases)

lemma example_inputs_simps:
  "ui_page example_inputs = Data_Preview" "ui_save example_inputs"
  "ui_countries example_inputs = []" "ui_product example_inputs = ''All''"
  by (simp_all add: example_inputs_def)

lemma unwritable_read_only_world: "''Filtered_Data.csv'' \<in> unwritable read_only_world"
  by (simp add: read_only_world_def)

lemma take_neq: "n < length xs \<Longrightarrow> take n xs \<noteq> xs"
proof
  assume "n < length xs" and "take n xs = xs"
  then have "length (take n xs) = length xs" by simp
  with \<open>n < length xs\<close> show False by simp
qed

lemma metric_cards_append: "metric_cards (xs @ ys) = metric_cards xs @ metric_cards ys"
  by (induction xs rule: metric_cards.induct) simp_all

lemma metric_cards_analysis_dashboard:
  "metric_cards (shown (analysis_dashboard w sample_df c ie)) = whole_dataset_cards sample_df"
  unfolding analysis_dashboard_def whole_dataset_cards_def Let_def
  by (simp split: sum.splits)

lemma metric_cards_Dashboard_analysis:
  assumes "ui_page ui = Analysis_Dashboard"
  shows "metric_cards (shown (Dashboard permutation ui w)) =
           (case load_sample_df permutation w of
              Inl e \<Rightarrow> [] | Inr sample_df \<Rightarrow> whole_dataset_cards sample_df)"
proof (cases "load_sample_df permutation w")
  case (Inl e)
  then show ?thesis by (simp add: Dashboard_def)
next
  case (Inr sample_df)
  have "metric_cards (shown (Dashboard permutation ui w))
          = metric_cards (shown (analysis_dashboard w sample_df (ui_country ui) (ui_import_export ui)))"
    unfolding Dashboard_loaded[OF Inr] assms Let_def
    by (simp only: page.case split: option.splits) (simp add: metric_cards_append)
  then show ?thesis
    unfolding metric_cards_analysis_dashboard Inr by simp
qed

lemma two_rows_modes:
  "item0 (mode (map Shipping_Method two_rows)) = Inr ''Air''"
  "item0 (mode (map Product two_rows)) = Inr ''laptop''"
  by (simp_all add: two_rows_def example_row_def mode_def unique_def value_count_def item0_def)

lemma two_rows_cards:
  "card (set (map Product two_rows)) = 1" "card (set (map Country two_rows)) = 2"
  "length two_rows = 2" "two_rows \<noteq> []"
  by (simp_all add: two_rows_def example_row_def)

section \<open>CSV text: results\<close>


























section \<open>Claims\<close>

subsection \<open>Filter engine\<close>

text \<open>
  C1 as stated fails on the Data Preview page when no constraint is active: every row
  of an 11-row dataset satisfies the empty predicate, but the page shows 10 of them.
\<close>

theorem filter_exact_counterexample:
  "filtered_df (replicate 11 example_row) [] ''All''
     \<noteq> filter (satisfies (set []) ''All'' ''All'') (replicate 11 example_row)"
  by (simp add: filtered_df_def satisfies_def)

text \<open>
  C1, amended. On the Data Preview page with at least one active constraint (a
  non-empty country selection, or a product other than "All"), and on the Analysis page
  for every selection (a country or "All", an import/export choice or "All"), the filter
  output is the ordered sub-sequence of D containing exactly the rows that satisfy every
  active constraint. In every case, the default view included, the output is a
  sub-sequence of D in D's row order.
\<close>

theorem filter_exact_when_active:
  "((selected_countries \<noteq> [] \<or> selected_product \<noteq> ''All'') \<longrightarrow>
      filtered_df D selected_countries selected_product
        = filter (satisfies (set selected_countries) selected_product ''All'') D) \<and>
   filtered_data D selected_country import_export_choice
     = filter (satisfies (country_choice selected_country) ''All'' import_export_choice) D \<and>
   subseq (filtered_df D selected_countries selected_product) D \<and>
   subseq (filtered_data D selected_country import_export_choice) D"
proof (intro conjI impI)
  assume "selected_countries \<noteq> [] \<or> selected_product \<noteq> ''All''"
  then show "filtered_df D selected_countries selected_product
        = filter (satisfies (set selected_countries) selected_product ''All'') D"
    by (rule filtered_df_active)
next
  show "filtered_data D selected_country import_export_choice
     = filter (satisfies (country_choice selected_country) ''All'' import_export_choice) D"
    by (rule filtered_data_eq)
next
  show "subseq (filtered_df D selected_countries selected_product) D"
    unfolding filtered_df_def
    by (simp add: prefix_imp_subseq[OF take_is_prefix])
next
  show "subseq (filtered_data D selected_country import_export_choice) D"
    by (simp add: filtered_data_eq)
qed

theorem filter_exact_when_active_witness:
  "filtered_df [example_row, example_row\<lparr>Country := ''USA''\<rparr>, example_row] [''India''] ''All''
     = [example_row, example_row] \<and>
   filtered_data [example_row, example_row\<lparr>Country := ''USA''\<rparr>, example_row] ''USA'' ''Export''
     = [example_row\<lparr>Country := ''USA''\<rparr>]"
  using filter_exact_when_active
    [of "[''India'']" "''All''" "[example_row, example_row\<lparr>Country := ''USA''\<rparr>, example_row]"
        "''USA''" "''Export''"]
  by (simp add: satisfies_def country_choice_def example_row_def)

text \<open>
  C2. With no country selected and the product "All", the Data Preview filter returns
  exactly the first 10 records of the dataset; on a dataset of more than 10 records
  (the sample has 3001) that is not the whole dataset.
\<close>

theorem default_view_first_10:
  "filtered_df D [] ''All'' = take 10 D \<and> (10 < length D \<longrightarrow> filtered_df D [] ''All'' \<noteq> D)"
proof -
  have eq: "filtered_df D [] ''All'' = take 10 D" by (simp add: filtered_df_def)
  have "take 10 D \<noteq> D" if "10 < length D"
  proof
    assume "take 10 D = D"
    then have "length (take 10 D) = length D" by simp
    with that show False by simp
  qed
  with eq show ?thesis by simp
qed

theorem default_view_first_10_witness:
  "filtered_df (replicate 11 example_row) [] ''All'' = replicate 10 example_row \<and>
   filtered_df (replicate 11 example_row) [] ''All'' \<noteq> replicate 11 example_row"
  using default_view_first_10 [of "replicate 11 example_row"] by simp

subsection \<open>Aggregation module\<close>

text \<open>
  C3 as stated fails on a tie: in the column Sea, Air both values occur once, Sea comes
  first in row order, and \<^verbatim>\<open>mode()[0]\<close> is Air.
\<close>

theorem mode_tie_break_counterexample:
  "item0 (mode [''Sea'', ''Air'']) \<noteq> row_order_first_mode [''Sea'', ''Air'']"
  by (simp add: row_order_first_mode_def item0_def value_count_def mode_def unique_def)

text \<open>
  C3, amended. For every non-empty column, \<^verbatim>\<open>mode()[0]\<close> is determined by the column
  alone: it is a value of the column of maximum frequency, and when several values
  share the maximum frequency it is the smallest of them in the column's order
  (lexicographic for strings).
\<close>

theorem mode_tie_break_smallest:
  "col \<noteq> [] \<Longrightarrow>
   \<exists>m. item0 (mode col) = Inr m \<and> m \<in> set col \<and>
       (\<forall>v. value_count col v \<le> value_count col m) \<and>
       (\<forall>v. value_count col v = value_count col m \<longrightarrow> m \<le> v)"
  by (rule item0_mode)

theorem mode_tie_break_smallest_witness:
  "item0 (mode [''Sea'', ''Air'', ''Land'', ''Air'', ''Sea'']) = Inr ''Air'' \<and>
   value_count [''Sea'', ''Air'', ''Land'', ''Air'', ''Sea''] ''Sea'' = 2 \<and>
   value_count [''Sea'', ''Air'', ''Land'', ''Air'', ''Sea''] ''Air'' = 2"
proof -
  let ?col = "[''Sea'', ''Air'', ''Land'', ''Air'', ''Sea'']"
  have ne: "?col \<noteq> []" by simp
  from mode_tie_break_smallest [OF ne] obtain m where
    m: "item0 (mode ?col) = Inr m" "m \<in> set ?col"
      "\<forall>v. value_count ?col v \<le> value_count ?col m"
      "\<forall>v. value_count ?col v = value_count ?col m \<longrightarrow> m \<le> v"
    by blast
  have sea: "value_count ?col ''Sea'' = 2" and air: "value_count ?col ''Air'' = 2"
    and land: "value_count ?col ''Land'' = 1"
    by (simp_all add: value_count_def)
  from m(2) have "m = ''Sea'' \<or> m = ''Air'' \<or> m = ''Land''" by auto
  then have "m = ''Air''"
  proof (elim disjE)
    assume "m = ''Sea''"
    with m(4) sea air have "''Sea'' \<le> ''Air''" by metis
    then show ?thesis by simp
  next
    assume "m = ''Air''" then show ?thesis .
  next
    assume "m = ''Land''"
    with m(3) land sea have "2 \<le> (1::nat)" by metis
    then show ?thesis by simp
  qed
  with m(1) sea air show ?thesis by simp
qed

text \<open>
  C4. On the empty row sequence, \<^verbatim>\<open>describe\<close> over Quantity, Value and Weight gives
  count 0 and NaN for every other statistic of every column. Whenever the Data Preview
  filter selects no row, the page shows that table, and the run raises nothing unless
  the save button is pressed.
\<close>

theorem describe_empty:
  "summary_df [] = [(''Quantity'', no_data), (''Value'', no_data), (''Weight'', no_data)] \<and>
   (filtered_df sample_df selected_countries selected_product = [] \<longrightarrow>
      SummaryTable [(''Quantity'', no_data), (''Value'', no_data), (''Weight'', no_data)]
        \<in> set (shown (data_preview w sample_df selected_countries selected_product save_clicked)) \<and>
      raised (data_preview w sample_df selected_countries selected_product False) = None)"
proof (intro conjI impI)
  show "summary_df [] = [(''Quantity'', no_data), (''Value'', no_data), (''Weight'', no_data)]"
    by (rule summary_df_Nil)
next
  assume e: "filtered_df sample_df selected_countries selected_product = []"
  show "SummaryTable [(''Quantity'', no_data), (''Value'', no_data), (''Weight'', no_data)]
        \<in> set (shown (data_preview w sample_df selected_countries selected_product save_clicked))"
    unfolding shown_data_preview e summary_df_Nil by simp
next
  show "raised (data_preview w sample_df selected_countries selected_product False) = None"
    unfolding raised_data_preview by simp
qed

theorem describe_empty_witness:
  "filtered_df [example_row] [''USA''] ''All'' = [] \<and>
   SummaryTable [(''Quantity'', no_data), (''Value'', no_data), (''Weight'', no_data)]
     \<in> set (shown (data_preview example_world [example_row] [''USA''] ''All'' False)) \<and>
   raised (data_preview example_world [example_row] [''USA''] ''All'' False) = None"
proof -
  have e: "filtered_df [example_row] [''USA''] ''All'' = []"
    by (simp add: filtered_df_def example_row_def)
  from describe_empty [of "[example_row]" "[''USA'']" "''All''" example_world False] e
  show ?thesis by blast
qed

subsection \<open>Dataset loader\<close>

text \<open>
  C5. A source file of fewer than 3001 rows (2000, for example) cannot be sampled:
  \<^verbatim>\<open>sample(n=3001)\<close> raises \<^verbatim>\<open>ValueError\<close>, the exception pandas uses for a sample that
  exceeds the population (the InsufficientDataError of the specification), and the run
  ends there with nothing shown.
\<close>

theorem sample_larger_than_file_fails:
  "files w file_path = Some df \<Longrightarrow> length df < 3001 \<Longrightarrow>
   load_sample_df permutation w = Inl ValueError \<and>
   Dashboard permutation ui w = \<lparr>shown = [], raised = Some ValueError, final = w\<rparr>"
  by (simp add: load_sample_df_def read_csv_def sample_def Dashboard_def)

theorem sample_larger_than_file_fails_witness:
  "load_sample_df identity_permutation
     (example_world\<lparr>files := [file_path \<mapsto> replicate 2000 example_row]\<rparr>) = Inl ValueError"
  using sample_larger_than_file_fails
    [of "example_world\<lparr>files := [file_path \<mapsto> replicate 2000 example_row]\<rparr>"
        "replicate 2000 example_row" identity_permutation]
  by simp

text \<open>
  C6. Sampling is deterministic: two loads that find the same source file yield the
  same sampled dataset, rows and order, whatever else differs between the two worlds
  (the state of the global random generator, other files, earlier writes). The seed and
  the sample size are the constants 55054 and 3001 of the script.
\<close>

theorem sampling_deterministic:
  "files w1 file_path = files w2 file_path \<Longrightarrow>
   load_sample_df permutation w1 = load_sample_df permutation w2"
  by (simp add: load_sample_df_def read_csv_def sample_def Let_def split: option.splits)

theorem sampling_deterministic_witness:
  "load_sample_df identity_permutation (example_world\<lparr>global_rng := 7\<rparr>)
     = load_sample_df identity_permutation read_only_world"
  using sampling_deterministic
    [of "example_world\<lparr>global_rng := 7\<rparr>" read_only_world identity_permutation]
  by (simp add: example_world_def read_only_world_def)

subsection \<open>Export sink\<close>




text \<open>
  C8 as stated fails: with the export path write-protected and the save button pressed,
  the run does not continue past \<^verbatim>\<open>to_csv\<close>; it ends with the exception raised.
\<close>

theorem export_failure_counterexample:
  "raised (Dashboard identity_permutation example_inputs read_only_world) \<noteq> None"
  unfolding raised_Dashboard_preview[OF load_read_only_world example_inputs_simps(1)]
    raised_data_preview
  using example_inputs_simps(2) unwritable_read_only_world by simp

text \<open>
  C8, amended. If the write of the CSV export fails, the \<^verbatim>\<open>OSError\<close> of \<^verbatim>\<open>to_csv\<close> is not
  caught by the script: it ends the run at that call. What the page showed before the
  call (title, data table, summary statistics) stays shown; the success message and the
  sidebar footer are not shown. The write is attempted once and not retried.
\<close>

theorem export_failure_ends_run:
  assumes "load_sample_df permutation w = Inr sample_df"
    and "ui_page ui = Data_Preview" and "ui_save ui"
    and "''Filtered_Data.csv'' \<in> unwritable w"
  shows "raised (Dashboard permutation ui w) = Some OSError \<and>
         shown (Dashboard permutation ui w) =
           [SidebarTitle ''Navigation'',
            Title ''Data Preview Dashboard'',
            Subheader (if ui_countries ui \<noteq> [] \<or> ui_product ui \<noteq> ''All''
                       then ''Filtered Data'' else ''First 10 Rows of Data''),
            DataFrameView (filtered_df sample_df (ui_countries ui) (ui_product ui)),
            Subheader ''Summary Statistics'',
            SummaryTable (summary_df (filtered_df sample_df (ui_countries ui) (ui_product ui)))] \<and>
         write_log (final (Dashboard permutation ui w)) =
           write_log w @ [(''Filtered_Data.csv'',
                           filtered_df sample_df (ui_countries ui) (ui_product ui))]"
proof (intro conjI)
  have r: "raised (data_preview w sample_df (ui_countries ui) (ui_product ui) (ui_save ui))
             = Some OSError"
    unfolding raised_data_preview using assms(3,4) by simp
  show "raised (Dashboard permutation ui w) = Some OSError"
    unfolding raised_Dashboard_preview[OF assms(1,2)] by (rule r)
  show "shown (Dashboard permutation ui w) =
           [SidebarTitle ''Navigation'',
            Title ''Data Preview Dashboard'',
            Subheader (if ui_countries ui \<noteq> [] \<or> ui_product ui \<noteq> ''All''
                       then ''Filtered Data'' else ''First 10 Rows of Data''),
            DataFrameView (filtered_df sample_df (ui_countries ui) (ui_product ui)),
            Subheader ''Summary Statistics'',
            SummaryTable (summary_df (filtered_df sample_df (ui_countries ui) (ui_product ui)))]"
    unfolding shown_Dashboard_preview[OF assms(1,2)] r shown_data_preview
    using assms(3,4) by simp
  show "write_log (final (Dashboard permutation ui w)) =
           write_log w @ [(''Filtered_Data.csv'',
                           filtered_df sample_df (ui_countries ui) (ui_product ui))]"
    unfolding final_Dashboard_preview[OF assms(1,2)] final_data_preview
    using assms(3) by (simp add: write_log_to_csv)
qed

theorem export_failure_ends_run_witness:
  "raised (Dashboard identity_permutation example_inputs read_only_world) = Some OSError \<and>
   shown (Dashboard identity_permutation example_inputs read_only_world) =
     [SidebarTitle ''Navigation'',
      Title ''Data Preview Dashboard'',
      Subheader ''First 10 Rows of Data'',
      DataFrameView (filtered_df (replicate 3001 example_row) [] ''All''),
      Subheader ''Summary Statistics'',
      SummaryTable (summary_df (filtered_df (replicate 3001 example_row) [] ''All''))] \<and>
   write_log (final (Dashboard identity_permutation example_inputs read_only_world)) =
     [(''Filtered_Data.csv'', filtered_df (replicate 3001 example_row) [] ''All'')]"
proof -
  have l: "write_log read_only_world = []"
    by (simp add: read_only_world_def example_world_def)
  from export_failure_ends_run
    [OF load_read_only_world example_inputs_simps(1,2) unwritable_read_only_world]
  show ?thesis unfolding example_inputs_simps(3,4) l by simp
qed

text \<open>
  C10. On the Data Preview page with no country selected and the product "All",
  pressing the save button writes the 10-row default view, the first 10 records of the
  sample, to \<^verbatim>\<open>Filtered_Data.csv\<close>; for a sample of more than 10 records that is not
  the whole sample.
\<close>

theorem export_default_view:
  assumes "load_sample_df permutation w = Inr sample_df"
    and "ui_page ui = Data_Preview" and "ui_countries ui = []" and "ui_product ui = ''All''"
    and "ui_save ui"
  shows "write_log (final (Dashboard permutation ui w)) =
           write_log w @ [(''Filtered_Data.csv'', take 10 sample_df)] \<and>
         (''Filtered_Data.csv'' \<notin> unwritable w \<longrightarrow>
            files (final (Dashboard permutation ui w)) ''Filtered_Data.csv''
              = Some (take 10 sample_df)) \<and>
         (10 < length sample_df \<longrightarrow> take 10 sample_df \<noteq> sample_df)"
proof (intro conjI impI)
  have f: "filtered_df sample_df (ui_countries ui) (ui_product ui) = take 10 sample_df"
    unfolding assms(3,4) by (simp add: filtered_df_def)
  have fin: "final (Dashboard permutation ui w)
               = snd (to_csv w (take 10 sample_df) ''Filtered_Data.csv'')"
    unfolding final_Dashboard_preview[OF assms(1,2)] final_data_preview f
    using assms(5) by simp
  show "write_log (final (Dashboard permutation ui w)) =
           write_log w @ [(''Filtered_Data.csv'', take 10 sample_df)]"
    unfolding fin by (rule write_log_to_csv)
  show "files (final (Dashboard permutation ui w)) ''Filtered_Data.csv''
              = Some (take 10 sample_df)"
    if "''Filtered_Data.csv'' \<notin> unwritable w"
    unfolding fin files_to_csv[OF that] by simp
  show "take 10 sample_df \<noteq> sample_df" if "10 < length sample_df"
    using that by (rule take_neq)
qed

theorem export_default_view_witness:
  "write_log (final (Dashboard identity_permutation example_inputs example_world)) =
     [(''Filtered_Data.csv'', replicate 10 example_row)] \<and>
   files (final (Dashboard identity_permutation example_inputs example_world)) ''Filtered_Data.csv''
     = Some (replicate 10 example_row) \<and>
   replicate 10 example_row \<noteq> replicate 3001 example_row"
proof -
  have l: "write_log example_world = []" and u: "''Filtered_Data.csv'' \<notin> unwritable example_world"
    by (simp_all add: example_world_def)
  have t: "take 10 (replicate 3001 example_row) = replicate 10 example_row" by simp
  have n: "10 < length (replicate 3001 example_row)" by simp
  from export_default_view
    [OF load_example_world example_inputs_simps(1,3,4,2)] u n
  show ?thesis unfolding l t by simp
qed

subsection \<open>View renderer\<close>

text \<open>
  C9. The metric cards of the Analysis page do not depend on the filter widgets: two
  runs on the Analysis page show the same cards whatever the country and import/export
  selections are. On a non-empty sample the five cards are the record count, the number
  of distinct products, the number of distinct countries, the mode of the shipping
  methods and the mode of the products, each over the whole sample.
\<close>

theorem metric_cards_ignore_filters:
  "(ui_page ui1 = Analysis_Dashboard \<and> ui_page ui2 = Analysis_Dashboard \<longrightarrow>
      metric_cards (shown (Dashboard permutation ui1 w))
        = metric_cards (shown (Dashboard permutation ui2 w))) \<and>
   metric_cards (shown (analysis_dashboard w sample_df c1 ie1))
     = metric_cards (shown (analysis_dashboard w sample_df c2 ie2)) \<and>
   (sample_df \<noteq> [] \<longrightarrow>
      (\<exists>shipping top_product.
          item0 (mode (map Shipping_Method sample_df)) = Inr shipping \<and>
          item0 (mode (map Product sample_df)) = Inr top_product \<and>
          metric_cards (shown (analysis_dashboard w sample_df c1 ie1)) =
            [(''Total Records'', IntValue (length sample_df)),
             (''Unique Products'', IntValue (card (set (map Product sample_df)))),
             (''Unique Countries'', IntValue (card (set (map Country sample_df)))),
             (''Most Used Shipping Method'', StrValue shipping),
             (''Top Product'', StrValue top_product)]))"
proof (intro conjI impI)
  assume pg: "ui_page ui1 = Analysis_Dashboard \<and> ui_page ui2 = Analysis_Dashboard"
  show "metric_cards (shown (Dashboard permutation ui1 w))
        = metric_cards (shown (Dashboard permutation ui2 w))"
    unfolding metric_cards_Dashboard_analysis[OF pg[THEN conjunct1]]
      metric_cards_Dashboard_analysis[OF pg[THEN conjunct2]]
    by (rule refl)
next
  show "metric_cards (shown (analysis_dashboard w sample_df c1 ie1))
     = metric_cards (shown (analysis_dashboard w sample_df c2 ie2))"
    unfolding metric_cards_analysis_dashboard by (rule refl)
next
  assume ne: "sample_df \<noteq> []"
  then have ne1: "map Shipping_Method sample_df \<noteq> []" and ne2: "map Product sample_df \<noteq> []"
    by simp_all
  from item0_mode[OF ne1] obtain shipping
    where s: "item0 (mode (map Shipping_Method sample_df)) = Inr shipping"
    by (elim exE conjE)
  from item0_mode[OF ne2] obtain top_product
    where p: "item0 (mode (map Product sample_df)) = Inr top_product"
    by (elim exE conjE)
  have cards: "metric_cards (shown (analysis_dashboard w sample_df c1 ie1)) =
            [(''Total Records'', IntValue (length sample_df)),
             (''Unique Products'', IntValue (card (set (map Product sample_df)))),
             (''Unique Countries'', IntValue (card (set (map Country sample_df)))),
             (''Most Used Shipping Method'', StrValue shipping),
             (''Top Product'', StrValue top_product)]"
    unfolding metric_cards_analysis_dashboard whole_dataset_cards_def s p nunique_card
    by (simp only: sum.case append.simps)
  show "\<exists>shipping top_product.
          item0 (mode (map Shipping_Method sample_df)) = Inr shipping \<and>
          item0 (mode (map Product sample_df)) = Inr top_product \<and>
          metric_cards (shown (analysis_dashboard w sample_df c1 ie1)) =
            [(''Total Records'', IntValue (length sample_df)),
             (''Unique Products'', IntValue (card (set (map Product sample_df)))),
             (''Unique Countries'', IntValue (card (set (map Country sample_df)))),
             (''Most Used Shipping Method'', StrValue shipping),
             (''Top Product'', StrValue top_product)]"
    using s p cards by (intro exI[of _ shipping] exI[of _ top_product] conjI)
qed

theorem metric_cards_ignore_filters_witness:
  "metric_cards (shown (Dashboard identity_permutation
       (example_inputs\<lparr>ui_page := Analysis_Dashboard, ui_country := ''India'',
                       ui_import_export := ''Import''\<rparr>) example_world))
     = metric_cards (shown (Dashboard identity_permutation
       (example_inputs\<lparr>ui_page := Analysis_Dashboard\<rparr>) example_world)) \<and>
   metric_cards (shown (analysis_dashboard example_world two_rows ''USA'' ''Import''))
     = metric_cards (shown (analysis_dashboard example_world two_rows ''All'' ''All'')) \<and>
   metric_cards (shown (analysis_dashboard example_world two_rows ''USA'' ''Import'')) =
     [(''Total Records'', IntValue 2), (''Unique Products'', IntValue 1),
      (''Unique Countries'', IntValue 2), (''Most Used Shipping Method'', StrValue ''Air''),
      (''Top Product'', StrValue ''laptop'')]"
proof -
  let ?ui1 = "example_inputs\<lparr>ui_page := Analysis_Dashboard, ui_country := ''India'',
                        ui_import_export := ''Import''\<rparr>"
  let ?ui2 = "example_inputs\<lparr>ui_page := Analysis_Dashboard\<rparr>"
  have pages: "ui_page ?ui1 = Analysis_Dashboard \<and> ui_page ?ui2 = Analysis_Dashboard"
    by simp
  note t = metric_cards_ignore_filters
    [of ?ui1 ?ui2 identity_permutation example_world two_rows "''USA''" "''Import''"
        "''All''" "''All''"]
  note a = t[THEN conjunct1, rule_format, OF pages]
  note b = t[THEN conjunct2, THEN conjunct1]
  note c = t[THEN conjunct2, THEN conjunct2, rule_format, OF two_rows_cards(4)]
  have d: "metric_cards (shown (analysis_dashboard example_world two_rows ''USA'' ''Import'')) =
     [(''Total Records'', IntValue 2), (''Unique Products'', IntValue 1),
      (''Unique Countries'', IntValue 2), (''Most Used Shipping Method'', StrValue ''Air''),
      (''Top Product'', StrValue ''laptop'')]"
    using c unfolding two_rows_modes two_rows_cards by simp
  show ?thesis
    by (intro conjI) (rule a, rule b, rule d)
qed

end
